theory Spec2Isabelle
  imports Complex_Main
begin

section \<open>Pairwise ranker: the trainer of \<^verbatim>\<open>tools/train_ranker.py\<close>\<close>

text \<open>
  Python floats are modelled by the real numbers: every arithmetic operation of the trainer
  is the exact one, so rounding, infinities and NaN are outside the model. What the floating
  point library can raise is kept: \<^verbatim>\<open>math.exp\<close> raises OverflowError when its result
  leaves the range of a double, \<^verbatim>\<open>math.log1p\<close> raises ValueError at or below \<open>-1\<close>,
  a float division by zero raises ZeroDivisionError, and a list index out of range raises
  IndexError. \<^verbatim>\<open>SystemExit\<close> is the trainer's own abort.
\<close>

datatype error =
    SystemExit
  | IndexError
  | OverflowError
  | ValueError
  | ZeroDivisionError
  | JSONDecodeError
  | AttributeError
  | TypeError

type_synonym pair = "string \<times> string \<times> int"

text \<open>The loop variables \<^verbatim>\<open>w, b, loss, n\<close> of one epoch.\<close>

record train_state =
  st_w :: "real list"
  st_b :: real
  st_loss :: real
  st_n :: nat

definition py_exp :: "real \<Rightarrow> error + real" where
  "py_exp x = (if exp x < 2 ^ 1024 then Inr (exp x) else Inl OverflowError)"

definition py_log1p :: "real \<Rightarrow> error + real" where
  "py_log1p x = (if x \<le> - 1 then Inl ValueError else Inr (ln (1 + x)))"

definition py_div :: "real \<Rightarrow> real \<Rightarrow> error + real" where
  "py_div x y = (if y = 0 then Inl ZeroDivisionError else Inr (x / y))"

text \<open>\<^verbatim>\<open>sum(x*y for x, y in zip(a, b))\<close>: the sum starts at 0 and adds from the left.\<close>

definition dot :: "real list \<Rightarrow> real list \<Rightarrow> real" where
  "dot a b = foldl (+) 0 (map (\<lambda>(x, y). x * y) (zip a b))"

text \<open>The three-way branch on the signed margin: the pair \<^verbatim>\<open>(ell, sig)\<close>.\<close>

definition loss_sig :: "real \<Rightarrow> error + (real \<times> real)" where
  "loss_sig z =
     (if z > 35 then Inr (0, 0)
      else if z < - 35 then Inr (- z, 1)
      else
        (case py_exp (- z) of Inl e \<Rightarrow> Inl e | Inr u \<Rightarrow>
        (case py_log1p u of Inl e \<Rightarrow> Inl e | Inr ell \<Rightarrow>
        (case py_exp z of Inl e \<Rightarrow> Inl e | Inr v \<Rightarrow>
        (case py_div 1 (1 + v) of Inl e \<Rightarrow> Inl e | Inr sig \<Rightarrow> Inr (ell, sig))))))"

text \<open>
  \<^verbatim>\<open>for k in range(dim): w[k] -= lr * (gscale * dx[k] + l2 * w[k])\<close>, the list of the
  indices still to visit made explicit. Reading \<^verbatim>\<open>w[k]\<close> or \<^verbatim>\<open>dx[k]\<close> out of range raises.
\<close>

fun update_w :: "real \<Rightarrow> real \<Rightarrow> real \<Rightarrow> real list \<Rightarrow> nat list \<Rightarrow> real list \<Rightarrow> error + real list" where
  "update_w lr gscale l2 dx [] w = Inr w"
| "update_w lr gscale l2 dx (k # ks) w =
     (if k < length w \<and> k < length dx
      then update_w lr gscale l2 dx ks (w[k := w ! k - lr * (gscale * dx ! k + l2 * w ! k)])
      else Inl IndexError)"

text \<open>The body of the loop over the pairs, for one pair.\<close>

definition train_pair ::
  "(string \<rightharpoonup> real list) \<Rightarrow> int \<Rightarrow> real \<Rightarrow> real \<Rightarrow> train_state \<Rightarrow> pair \<Rightarrow> error + train_state" where
  "train_pair id2x dm lr l2 st p =
     (case p of (i, j, y01) \<Rightarrow>
        (case id2x i of None \<Rightarrow> Inr st | Some xi \<Rightarrow>
        (case id2x j of None \<Rightarrow> Inr st | Some xj \<Rightarrow>
           (let y = (if y01 = 1 then 1 else - 1);
                dx = map (\<lambda>(a, c). a - c) (zip xi xj);
                s = dot (st_w st) dx + st_b st;
                z = y * s
            in case loss_sig z of Inl e \<Rightarrow> Inl e | Inr (ell, sig) \<Rightarrow>
               (let gscale = - y * sig
                in case update_w lr gscale l2 dx [0..<nat dm] (st_w st) of
                     Inl e \<Rightarrow> Inl e
                   | Inr w' \<Rightarrow>
                       Inr \<lparr>st_w = w', st_b = st_b st - lr * gscale,
                            st_loss = st_loss st + ell, st_n = st_n st + 1\<rparr>)))))"

text \<open>\<^verbatim>\<open>for i, j, y01 in pairs\<close>: the pairs in order, each from the state the previous one left.\<close>

fun run_pairs ::
  "(string \<rightharpoonup> real list) \<Rightarrow> int \<Rightarrow> real \<Rightarrow> real \<Rightarrow> train_state \<Rightarrow> pair list \<Rightarrow> error + train_state" where
  "run_pairs id2x dm lr l2 st [] = Inr st"
| "run_pairs id2x dm lr l2 st (p # ps) =
     (case train_pair id2x dm lr l2 st p of
        Inl e \<Rightarrow> Inl e
      | Inr st' \<Rightarrow> run_pairs id2x dm lr l2 st' ps)"

text \<open>
  \<^verbatim>\<open>for ep in range(1, epochs + 1)\<close>, counted by the number of epochs left. Each epoch
  starts with \<^verbatim>\<open>loss = 0.0, n = 0\<close> and aborts after its pairs when \<^verbatim>\<open>n == 0\<close>. The
  line printed at the end of an epoch does not change the state and is left out.
\<close>

fun train_epochs ::
  "(string \<rightharpoonup> real list) \<Rightarrow> pair list \<Rightarrow> int \<Rightarrow> real \<Rightarrow> real \<Rightarrow> nat \<Rightarrow> real list \<Rightarrow> real
     \<Rightarrow> error + (real list \<times> real)" where
  "train_epochs id2x pairs dm lr l2 0 w b = Inr (w, b)"
| "train_epochs id2x pairs dm lr l2 (Suc eps) w b =
     (case run_pairs id2x dm lr l2 \<lparr>st_w = w, st_b = b, st_loss = 0, st_n = 0\<rparr> pairs of
        Inl e \<Rightarrow> Inl e
      | Inr st \<Rightarrow>
          if st_n st = 0 then Inl SystemExit
          else train_epochs id2x pairs dm lr l2 eps (st_w st) (st_b st))"

definition train ::
  "(string \<rightharpoonup> real list) \<Rightarrow> pair list \<Rightarrow> int \<Rightarrow> real \<Rightarrow> int \<Rightarrow> real \<Rightarrow> error + (real list \<times> real)" where
  "train id2x pairs dm lr epochs l2 =
     train_epochs id2x pairs dm lr l2 (nat epochs) (replicate (nat dm) 0) 0"


subsection \<open>The formulas of the specification\<close>

text \<open>
  The loss contribution and the gradient-sigmoid term as the specification words them, to be
  compared with \<open>loss_sig\<close>, which follows the code (\<^verbatim>\<open>math.log1p\<close>, library calls
  that can raise).
\<close>

definition spec_loss :: "real \<Rightarrow> real" where
  "spec_loss z = (if z > 35 then 0 else if z < - 35 then - z else ln (1 + exp (- z)))"

definition spec_sig :: "real \<Rightarrow> real" where
  "spec_sig z = (if z > 35 then 0 else if z < - 35 then 1 else 1 / (1 + exp z))"



section \<open>Python values and the library functions the tools call\<close>

text \<open>
  Outside the trainer's arithmetic a float is only parsed, truncated and passed on, so the
  values that are not numbers are kept there. \<open>PyOther\<close> stands for the literals that
  \<^verbatim>\<open>ast.literal_eval\<close> can return besides these (tuples, sets, complex numbers).
\<close>

datatype pyfloat = Finite real | PosInf | NegInf | NaN

datatype pyval =
    PyNone
  | PyBool bool
  | PyInt int
  | PyFloat pyfloat
  | PyStr string
  | PyBytes string
  | PyList "pyval list"
  | PyDict "(string \<times> pyval) list"
  | PyOther

text \<open>
  The functions of the Python library that the tools call on text are parameters of the
  model: \<^verbatim>\<open>json.loads\<close> and \<^verbatim>\<open>ast.literal_eval\<close> (\<open>None\<close> when they raise),
  \<^verbatim>\<open>float\<close> on a string (\<open>None\<close> for ValueError) and \<^verbatim>\<open>repr\<close>.
\<close>

record pylib =
  json_loads :: "string \<Rightarrow> pyval option"
  literal_eval :: "string \<Rightarrow> pyval option"
  float_str :: "string \<Rightarrow> pyfloat option"
  repr :: "pyval \<Rightarrow> string"

text \<open>\<^verbatim>\<open>float(v)\<close>: TypeError for a value that is no number and no text.\<close>

fun py_float :: "'a pylib_scheme \<Rightarrow> pyval \<Rightarrow> error + pyfloat" where
  "py_float L (PyFloat f) = Inr f"
| "py_float L (PyInt n) = (if \<bar>n\<bar> < 2 ^ 1024 then Inr (Finite (of_int n)) else Inl OverflowError)"
| "py_float L (PyBool c) = Inr (Finite (if c then 1 else 0))"
| "py_float L (PyStr s) = (case float_str L s of None \<Rightarrow> Inl ValueError | Some f \<Rightarrow> Inr f)"
| "py_float L (PyBytes s) = (case float_str L s of None \<Rightarrow> Inl ValueError | Some f \<Rightarrow> Inr f)"
| "py_float L v = Inl TypeError"

text \<open>\<^verbatim>\<open>[float(v) for v in x]\<close>: the first value that does not convert raises.\<close>

fun floats :: "'a pylib_scheme \<Rightarrow> pyval list \<Rightarrow> error + pyfloat list" where
  "floats L [] = Inr []"
| "floats L (v # vs) =
     (case py_float L v of
        Inl e \<Rightarrow> Inl e
      | Inr f \<Rightarrow> (case floats L vs of Inl e \<Rightarrow> Inl e | Inr fs \<Rightarrow> Inr (f # fs)))"

text \<open>\<^verbatim>\<open>int(f)\<close> of a float truncates towards zero and raises on NaN and the infinities.\<close>

fun py_int :: "pyfloat \<Rightarrow> error + int" where
  "py_int (Finite r) = Inr (if 0 \<le> r then \<lfloor>r\<rfloor> else \<lceil>r\<rceil>)"
| "py_int NaN = Inl ValueError"
| "py_int PosInf = Inl OverflowError"
| "py_int NegInf = Inl OverflowError"

text \<open>\<^verbatim>\<open>str.strip()\<close>, on the ASCII characters that Python counts as whitespace.\<close>

definition is_space :: "char \<Rightarrow> bool" where
  "is_space c = (let n = (of_char c :: nat) in (9 \<le> n \<and> n \<le> 13) \<or> (28 \<le> n \<and> n \<le> 32))"

definition strip :: "string \<Rightarrow> string" where
  "strip s = rev (dropWhile is_space (rev (dropWhile is_space s)))"

text \<open>\<^verbatim>\<open>str(n)\<close> of an integer: its decimal digits.\<close>

fun str_nat :: "nat \<Rightarrow> string" where
  "str_nat n =
     (if n < 10 then [''0123456789'' ! n] else str_nat (n div 10) @ [''0123456789'' ! (n mod 10)])"

declare str_nat.simps [simp del]



text \<open>\<^verbatim>\<open>d.get(k)\<close> on a dictionary: \<^verbatim>\<open>None\<close> for a key that is absent.\<close>

definition dict_get :: "(string \<times> pyval) list \<Rightarrow> string \<Rightarrow> pyval" where
  "dict_get d k = (case map_of d k of None \<Rightarrow> PyNone | Some v \<Rightarrow> v)"

text \<open>
  A row of \<^verbatim>\<open>csv.DictReader\<close>: a column name is absent, or it has a text, or it has
  \<^verbatim>\<open>None\<close> when the line was shorter than the header.
\<close>

type_synonym row = "string \<rightharpoonup> string option"

text \<open>\<^verbatim>\<open>r.get(k, default)\<close> on a row.\<close>

definition row_get :: "row \<Rightarrow> string \<Rightarrow> string \<Rightarrow> string option" where
  "row_get r k dflt = (case r k of None \<Rightarrow> Some dflt | Some v \<Rightarrow> v)"

text \<open>\<^verbatim>\<open>str(v)\<close> of a row's value.\<close>

definition str_field :: "string option \<Rightarrow> string" where
  "str_field v = (case v of None \<Rightarrow> ''None'' | Some s \<Rightarrow> s)"


section \<open>The loaders and the model file of \<^verbatim>\<open>tools/train_ranker.py\<close>\<close>




text \<open>
  The body of the loop of \<^verbatim>\<open>load_pairs_csv\<close>: \<open>None\<close> for \<^verbatim>\<open>continue\<close>. Every
  exception of \<^verbatim>\<open>int(float(y))\<close> is caught; \<^verbatim>\<open>float(None)\<close> is a TypeError.
\<close>

definition read_pair :: "'a pylib_scheme \<Rightarrow> row \<Rightarrow> pair option" where
  "read_pair L r =
     (let i = str_field (row_get r ''i'' []);
          j = str_field (row_get r ''j'' []);
          y = row_get r ''y'' []
      in if i = [] \<or> j = [] then None
         else case (case y of None \<Rightarrow> Inl TypeError | Some s \<Rightarrow> py_float L (PyStr s)) of
                Inl e \<Rightarrow> None
              | Inr f \<Rightarrow>
                  (case py_int f of
                     Inl e \<Rightarrow> None
                   | Inr n \<Rightarrow> if n \<noteq> 0 \<and> n \<noteq> 1 then None else Some (i, j, n)))"

fun load_pairs_csv :: "'a pylib_scheme \<Rightarrow> row list \<Rightarrow> pair list" where
  "load_pairs_csv L [] = []"
| "load_pairs_csv L (r # rs) =
     (case read_pair L r of
        None \<Rightarrow> load_pairs_csv L rs
      | Some p \<Rightarrow> p # load_pairs_csv L rs)"

text \<open>
  \<^verbatim>\<open>round(x, ndigits)\<close> of a float rounds the exact value to the nearest multiple of
  \<open>10\<^sup>-\<^sup>n\<close>, a tie to the even one.
\<close>

definition round_half_even :: "real \<Rightarrow> int" where
  "round_half_even x =
     (let f = \<lfloor>x\<rfloor>; d = x - of_int f
      in if d < 1 / 2 then f
         else if 1 / 2 < d then f + 1
         else if even f then f else f + 1)"

definition py_round :: "real \<Rightarrow> nat \<Rightarrow> real" where
  "py_round x ndigits = of_int (round_half_even (x * 10 ^ ndigits)) / 10 ^ ndigits"

text \<open>The object that \<^verbatim>\<open>save_model\<close> hands to \<^verbatim>\<open>json.dumps\<close>.\<close>

definition save_model :: "int \<Rightarrow> real list \<Rightarrow> real \<Rightarrow> pyval" where
  "save_model feature_version w b =
     PyDict
       [(''feature_version'', PyInt feature_version),
        (''dim'', PyInt (int (length w))),
        (''weights'', PyList (map (\<lambda>v. PyFloat (Finite (py_round v 12))) w)),
        (''bias'', PyFloat (Finite (py_round b 12)))]"


section \<open>The adapter \<^verbatim>\<open>tools/make_applicants_jsonl.py\<close>\<close>

text \<open>\<^verbatim>\<open>first(row, *keys, default)\<close>: the first of the keys whose column has a text.\<close>

fun first :: "row \<Rightarrow> string list \<Rightarrow> string \<Rightarrow> string" where
  "first row [] dflt = dflt"
| "first row (k # ks) dflt =
     (case row k of Some (Some v) \<Rightarrow> v | _ \<Rightarrow> first row ks dflt)"

definition parse_features :: "'a pylib_scheme \<Rightarrow> string \<Rightarrow> pyval list option" where
  "parse_features L s0 =
     (let s = strip s0
      in if s = [] then None
         else case json_loads L s of
                Some (PyList v) \<Rightarrow> Some v
              | _ \<Rightarrow> (case literal_eval L s of Some (PyList v) \<Rightarrow> Some v | _ \<Rightarrow> None))"

datatype id_mode = UniTimestamp | Row

text \<open>The \<^verbatim>\<open>if\<close> chain of \<^verbatim>\<open>main\<close> that builds \<^verbatim>\<open>applicant_id\<close>.\<close>

definition applicant_id :: "id_mode \<Rightarrow> string \<Rightarrow> string \<Rightarrow> nat \<Rightarrow> string" where
  "applicant_id mode uni timestamp idx =
     (if mode = UniTimestamp \<and> uni \<noteq> [] \<and> timestamp \<noteq> [] then uni @ ''_'' @ timestamp
      else if mode = UniTimestamp \<and> uni \<noteq> [] then uni @ ''_'' @ str_nat idx
      else str_nat idx)"

text \<open>The dictionary \<^verbatim>\<open>meta\<close> of \<^verbatim>\<open>main\<close>.\<close>

definition meta :: "row \<Rightarrow> string \<Rightarrow> string \<Rightarrow> (string \<times> pyval) list" where
  "meta row full_name uni =
     [(''name'', PyStr full_name),
      (''uni'', PyStr uni),
      (''email'', PyStr (strip (first row [''email''] []))),
      (''schoolYear'', PyStr (strip (first row [''schoolYear'', ''schoolYearText''] []))),
      (''raceEth'', PyStr (strip (first row [''raceEth''] []))),
      (''gpa'', PyStr (strip (first row [''gpa''] []))),
      (''calc12'', PyStr (strip (first row [''calc12'', ''calcVal''] []))),
      (''courses'', PyStr (strip (first row [''courses''] []))),
      (''score_0_10'', PyStr (strip (first row [''score_0_10''] []))),
      (''raw_score'', PyStr (strip (first row [''raw_score'', ''raw''] []))),
      (''feature_version'', PyStr (strip (first row [''feature_version''] []))),
      (''resume_chars'', PyStr (strip (first row [''resume_chars''] []))),
      (''essayMath'', PyStr (first row [''essayMath''] [])),
      (''essayCommunity'', PyStr (first row [''essayCommunity''] []))]"

text \<open>
  The body of the loop of \<^verbatim>\<open>main\<close> for the row numbered \<open>idx\<close>: \<open>None\<close> when the row is
  skipped, or the object written as one line of the output.
\<close>

definition convert_row :: "'a pylib_scheme \<Rightarrow> id_mode \<Rightarrow> nat \<Rightarrow> row \<Rightarrow> pyval option" where
  "convert_row L mode idx row =
     (let features_raw = first row [''features_json'', ''features'', ''featuresJson''] []
      in case parse_features L features_raw of
           None \<Rightarrow> None
         | Some feats0 \<Rightarrow>
             if feats0 = [] then None
             else
               (case floats L feats0 of
                  Inl e \<Rightarrow> None
                | Inr feats \<Rightarrow>
                    if length feats \<noteq> 21 then None
                    else
                      (let timestamp = strip (first row [''timestamp''] []);
                           uni = strip (first row [''uni''] []);
                           full_name = strip (first row [''fullName'', ''fullname'', ''name''] [])
                       in Some (PyDict
                            [(''id'', PyStr (applicant_id mode uni timestamp idx)),
                             (''features'', PyList (map PyFloat feats)),
                             (''meta'', PyDict (meta row full_name uni))]))))"

text \<open>
  \<^verbatim>\<open>for idx, row in enumerate(r, start=1)\<close> with the objects written so far and the
  counters \<^verbatim>\<open>n_ok\<close> and \<^verbatim>\<open>n_skip\<close>.
\<close>

fun main_loop ::
  "'a pylib_scheme \<Rightarrow> id_mode \<Rightarrow> nat \<Rightarrow> row list \<Rightarrow> pyval list \<times> nat \<times> nat \<Rightarrow> pyval list \<times> nat \<times> nat" where
  "main_loop L mode idx [] acc = acc"
| "main_loop L mode idx (row # rows) (out, n_ok, n_skip) =
     (case convert_row L mode idx row of
        None \<Rightarrow> main_loop L mode (Suc idx) rows (out, n_ok, Suc n_skip)
      | Some obj \<Rightarrow> main_loop L mode (Suc idx) rows (out @ [obj], Suc n_ok, n_skip))"



section \<open>Properties of the trainer\<close>

subsection \<open>The library calls of the three-way branch never raise\<close>

lemma exp_35_in_range: "exp (35::real) < 2 ^ 1024"
proof -
  have "exp (35::real) = exp 1 ^ 35"
    using exp_of_nat_mult [of 35 "1::real"] by simp
  also have "\<dots> \<le> 3 ^ 35"
    by (rule power_mono) (use exp_le in simp_all)
  also have "\<dots> < (2::real) ^ 1024"
    by simp
  finally show ?thesis .
qed

lemma py_exp_safe: "\<bar>x\<bar> \<le> 35 \<Longrightarrow> py_exp x = Inr (exp x)"
proof -
  assume "\<bar>x\<bar> \<le> 35"
  then have "exp x \<le> exp 35" by simp
  then have "exp x < 2 ^ 1024" using exp_35_in_range by (rule le_less_trans)
  then show ?thesis unfolding py_exp_def by (simp only: if_True)
qed

lemma py_log1p_exp: "py_log1p (exp x) = Inr (ln (1 + exp x))"
proof -
  have "- 1 < exp x" using exp_gt_zero [of x] by linarith
  then show ?thesis by (simp add: py_log1p_def)
qed

lemma py_div_exp: "py_div 1 (1 + exp x) = Inr (1 / (1 + exp x))"
proof -
  have "1 + exp x \<noteq> 0" using exp_gt_zero [of x] by linarith
  then show ?thesis by (simp add: py_div_def)
qed

lemma loss_sig_total: "loss_sig z = Inr (spec_loss z, spec_sig z)"
proof (cases "z > 35 \<or> z < - 35")
  case True
  then show ?thesis by (auto simp: loss_sig_def spec_loss_def spec_sig_def)
next
  case False
  then have "\<bar>z\<bar> \<le> 35" "\<bar>- z\<bar> \<le> 35" by auto
  then have "py_exp z = Inr (exp z)" "py_exp (- z) = Inr (exp (- z))"
    by (simp_all only: py_exp_safe)
  with False show ?thesis
    by (simp add: loss_sig_def spec_loss_def spec_sig_def py_log1p_exp py_div_exp)
qed

subsection \<open>The weight loop\<close>

lemma update_w_ok:
  "\<forall>k \<in> set ks. k < length w \<and> k < length dx \<Longrightarrow> distinct ks \<Longrightarrow>
   \<exists>w'. update_w lr g l2 dx ks w = Inr w' \<and> length w' = length w \<and>
        (\<forall>k < length w. w' ! k = (if k \<in> set ks then w ! k - lr * (g * dx ! k + l2 * w ! k) else w ! k))"
proof (induction ks arbitrary: w)
  case Nil
  then show ?case by simp
next
  case (Cons k ks)
  let ?w1 = "w[k := w ! k - lr * (g * dx ! k + l2 * w ! k)]"
  from Cons.prems have k: "k < length w" "k < length dx" "k \<notin> set ks" "distinct ks" by auto
  from Cons.prems have "\<forall>k \<in> set ks. k < length ?w1 \<and> k < length dx" by auto
  from Cons.IH [OF this k(4)] obtain w' where
    w': "update_w lr g l2 dx ks ?w1 = Inr w'" "length w' = length ?w1"
        "\<forall>i < length ?w1. w' ! i = (if i \<in> set ks then ?w1 ! i - lr * (g * dx ! i + l2 * ?w1 ! i) else ?w1 ! i)"
    by blast
  have "update_w lr g l2 dx (k # ks) w = Inr w'" using k w'(1) by simp
  moreover have "length w' = length w" using w'(2) by simp
  moreover have "\<forall>i < length w. w' ! i = (if i \<in> set (k # ks) then w ! i - lr * (g * dx ! i + l2 * w ! i) else w ! i)"
    using w'(3) k by (auto simp: nth_list_update)
  ultimately show ?case by blast
qed

lemma update_w_range:
  assumes "n \<le> length w" "n \<le> length dx"
  shows "update_w lr g l2 dx [0..<n] w =
           Inr (map (\<lambda>k. w ! k - lr * (g * dx ! k + l2 * w ! k)) [0..<n] @ drop n w)"
proof -
  from assms have "\<forall>k \<in> set [0..<n]. k < length w \<and> k < length dx" by auto
  from update_w_ok [OF this, of lr g l2] obtain w' where
    w': "update_w lr g l2 dx [0..<n] w = Inr w'" "length w' = length w"
        "\<forall>k < length w. w' ! k = (if k \<in> set [0..<n] then w ! k - lr * (g * dx ! k + l2 * w ! k) else w ! k)"
    by auto
  have "w' = map (\<lambda>k. w ! k - lr * (g * dx ! k + l2 * w ! k)) [0..<n] @ drop n w"
    using w'(2,3) assms by (auto simp: list_eq_iff_nth_eq nth_append)
  with w'(1) show ?thesis by simp
qed


subsection \<open>One pair, one epoch, all epochs\<close>

lemma train_pair_skip:
  "id2x i = None \<or> id2x j = None \<Longrightarrow> train_pair id2x dm lr l2 st (i, j, y01) = Inr st"
  by (auto simp: train_pair_def split: option.splits)

lemma train_pair_usable:
  assumes xi: "id2x i = Some xi" and xj: "id2x j = Some xj"
    and lw: "length (st_w st) = nat dm"
    and li: "nat dm \<le> length xi" and lj: "nat dm \<le> length xj"
  shows "train_pair id2x dm lr l2 st (i, j, y01) =
    (let y = (if y01 = 1 then 1 else - 1);
         dx = map (\<lambda>(a, c). a - c) (zip xi xj);
         z = y * (dot (st_w st) dx + st_b st)
     in Inr \<lparr>st_w = map (\<lambda>k. st_w st ! k - lr * ((- y * spec_sig z) * dx ! k + l2 * st_w st ! k)) [0..<nat dm],
             st_b = st_b st - lr * (- y * spec_sig z),
             st_loss = st_loss st + spec_loss z,
             st_n = st_n st + 1\<rparr>)"
proof -
  let ?dx = "map (\<lambda>(a, c). a - c) (zip xi xj)"
  have ldx: "nat dm \<le> length ?dx" using li lj by simp
  have upd: "update_w lr g l2 ?dx [0..<nat dm] (st_w st) =
      Inr (map (\<lambda>k. st_w st ! k - lr * (g * ?dx ! k + l2 * st_w st ! k)) [0..<nat dm])" for g
    using update_w_range [of "nat dm" "st_w st" ?dx lr g l2] lw ldx by simp
  show ?thesis
    unfolding train_pair_def Let_def
    by (simp only: xi xj loss_sig_total upd prod.case option.case sum.case)
qed






text \<open>
  Outside the constraints that the trainer puts on its caller: with no epoch to run it
  returns the zero model whatever the pairs are, and a vector shorter than \<open>dim\<close> makes the
  weight loop read \<^verbatim>\<open>dx[k]\<close> out of range.
\<close>

lemma train_no_epochs:
  "epochs \<le> 0 \<Longrightarrow> train id2x pairs dm lr epochs l2 = Inr (replicate (nat dm) 0, 0)"
  by (simp add: train_def)

lemma train_short_vector:
  "train [''a'' \<mapsto> [1], ''b'' \<mapsto> [0]] [(''a'', ''b'', 1)] 2 (1 / 10) 1 0 = Inl IndexError"
proof -
  have ls: "loss_sig 0 = Inr (ln 2, 1 / 2)"
    by (simp add: loss_sig_def py_exp_def py_log1p_def py_div_def)
  have upt: "[0..<nat 2] = [0, Suc 0]"
    by (simp add: upt_rec)
  show ?thesis
    by (simp add: train_def train_pair_def dot_def ls upt numeral_2_eq_2)
qed




lemma spec_loss_bounds: "0 \<le> spec_loss z \<and> spec_loss z \<le> \<bar>z\<bar> + 1"
proof -
  have "ln (1 + exp (- z)) \<le> \<bar>z\<bar> + 1"
  proof -
    have "1 + exp (- z) \<le> exp \<bar>z\<bar> + exp \<bar>z\<bar>"
      by (intro add_mono) (simp_all add: abs_if)
    also have "\<dots> \<le> exp 1 * exp \<bar>z\<bar>"
      using exp_ge_add_one_self [of "1::real"] mult_right_mono [of 2 "exp (1::real)" "exp \<bar>z\<bar>"]
      by simp
    also have "\<dots> = exp (\<bar>z\<bar> + 1)" by (simp add: exp_add)
    finally have "ln (1 + exp (- z)) \<le> ln (exp (\<bar>z\<bar> + 1))"
      by (subst ln_le_cancel_iff) (simp_all add: add_pos_pos)
    then show ?thesis by simp
  qed
  moreover have "0 \<le> ln (1 + exp (- z))"
    by (rule ln_ge_zero) simp
  ultimately show ?thesis by (auto simp: spec_loss_def)
qed

lemma spec_sig_bounds: "0 \<le> spec_sig z \<and> spec_sig z \<le> 1"
proof -
  have pos: "0 < 1 + exp z" by (simp add: add_pos_pos)
  have "1 \<le> 1 + exp z" by simp
  with pos have "1 / (1 + exp z) \<le> 1" using exp_gt_zero [of z] by (simp add: divide_le_eq del: exp_gt_zero)
  moreover from pos have "0 \<le> 1 / (1 + exp z)" by simp
  ultimately show ?thesis by (simp add: spec_sig_def)
qed


section \<open>The claims about the trainer\<close>

text \<open>
  C1. With \<open>dim = 2\<close>, the feature map \<open>a \<mapsto> [1, 0]\<close>, \<open>b \<mapsto> [0, 1]\<close>, the single pair
  \<open>(a, b, 1)\<close>, \<open>lr = 0.1\<close>, one epoch and \<open>l2 = 0\<close>, the trainer starts from the zero model
  and returns exactly \<open>w = [0.05, -0.05]\<close> and \<open>b = 0.05\<close>.
\<close>

theorem train_concrete_scenario:
  "train [''a'' \<mapsto> [1, 0], ''b'' \<mapsto> [0, 1]] [(''a'', ''b'', 1)] 2 (1 / 10) 1 0
     = Inr ([5 / 100, - (5 / 100)], 5 / 100)"
proof -
  have e0: "py_exp 0 = Inr 1"
    by (simp add: py_exp_def)
  have ls: "loss_sig 0 = Inr (ln 2, 1 / 2)"
    by (simp add: loss_sig_def e0 py_log1p_def py_div_def)
  have upt: "[0..<nat 2] = [0, Suc 0]"
    by (simp add: upt_rec)
  show ?thesis
    by (simp add: train_def train_pair_def dot_def ls upt numeral_2_eq_2)
qed


text \<open>
  C2. For a usable pair whose vectors have at least \<open>dim\<close> entries, with the bipolar target
  \<open>y\<close>, the difference vector \<open>dx\<close> and the gradient-sigmoid term \<open>sig\<close> that the branch
  returns at the signed margin, the step sets every weight coordinate \<open>k\<close> to
  \<open>w[k] - lr * ((-y * sig) * dx[k] + l2 * w[k])\<close> and the bias to \<open>b - lr * (-y * sig)\<close>,
  with no L2 term on the bias; the rest of the pairs runs from the state so updated.
\<close>

theorem train_pair_gradient_update:
  assumes "id2x i = Some xi" and "id2x j = Some xj"
    and "length (st_w st) = nat dm" and "nat dm \<le> length xi" and "nat dm \<le> length xj"
    and "y = (if y01 = 1 then 1 else - 1)"
    and "dx = map (\<lambda>(a, c). a - c) (zip xi xj)"
  shows "\<exists>ell sig st'.
      loss_sig (y * (dot (st_w st) dx + st_b st)) = Inr (ell, sig) \<and>
      train_pair id2x dm lr l2 st (i, j, y01) = Inr st' \<and>
      length (st_w st') = nat dm \<and>
      (\<forall>k < nat dm. st_w st' ! k = st_w st ! k - lr * ((- y * sig) * dx ! k + l2 * st_w st ! k)) \<and>
      st_b st' = st_b st - lr * (- y * sig) \<and>
      run_pairs id2x dm lr l2 st ((i, j, y01) # ps) = run_pairs id2x dm lr l2 st' ps"
proof -
  let ?z = "y * (dot (st_w st) dx + st_b st)"
  let ?st' = "\<lparr>st_w = map (\<lambda>k. st_w st ! k - lr * ((- y * spec_sig ?z) * dx ! k + l2 * st_w st ! k)) [0..<nat dm],
             st_b = st_b st - lr * (- y * spec_sig ?z),
             st_loss = st_loss st + spec_loss ?z,
             st_n = st_n st + 1\<rparr>"
  have tp: "train_pair id2x dm lr l2 st (i, j, y01) = Inr ?st'"
    using train_pair_usable [OF assms(1-5), of lr l2 y01]
    unfolding Let_def assms(6,7) [symmetric] .
  have "loss_sig ?z = Inr (spec_loss ?z, spec_sig ?z)"
    by (rule loss_sig_total)
  moreover have "length (st_w ?st') = nat dm" by simp
  moreover have "\<forall>k < nat dm. st_w ?st' ! k = st_w st ! k - lr * ((- y * spec_sig ?z) * dx ! k + l2 * st_w st ! k)"
    by simp
  moreover have "st_b ?st' = st_b st - lr * (- y * spec_sig ?z)" by simp
  moreover have "run_pairs id2x dm lr l2 st ((i, j, y01) # ps) = run_pairs id2x dm lr l2 ?st' ps"
    by (simp only: run_pairs.simps tp sum.case)
  ultimately show ?thesis using tp by blast
qed

theorem train_pair_gradient_update_witness:
  "\<exists>st'. train_pair [''a'' \<mapsto> [1, 0], ''b'' \<mapsto> [0, 1]] 2 (1 / 10) 0
            \<lparr>st_w = [0, 0], st_b = 0, st_loss = 0, st_n = 0\<rparr> (''a'', ''b'', 1) = Inr st' \<and>
         st_w st' ! 0 = 1 / 20 \<and> st_w st' ! 1 = - (1 / 20) \<and> st_b st' = 1 / 20"
proof -
  let ?m = "[''a'' \<mapsto> [1, 0::real], ''b'' \<mapsto> [0, 1]]"
  let ?st = "\<lparr>st_w = [0, 0], st_b = 0, st_loss = 0, st_n = 0\<rparr>"
  have h: "?m ''a'' = Some [1, 0]" "?m ''b'' = Some [0, 1]" "length (st_w ?st) = nat 2"
      "nat 2 \<le> length [1, 0::real]" "nat 2 \<le> length [0, 1::real]"
      "(1::real) = (if (1::int) = 1 then 1 else - 1)"
      "[1, - 1] = map (\<lambda>(a, c). a - c) (zip [1, 0::real] [0, 1])"
    by simp_all
  from train_pair_gradient_update [OF h, of "1 / 10" 0 "[]"] obtain ell sig st' where
    r: "loss_sig (1 * (dot (st_w ?st) [1, - 1] + st_b ?st)) = Inr (ell, sig)"
       "train_pair ?m 2 (1 / 10) 0 ?st (''a'', ''b'', 1) = Inr st'"
       "\<forall>k < nat 2. st_w st' ! k = st_w ?st ! k - 1 / 10 * ((- 1 * sig) * [1, - 1] ! k + 0 * st_w ?st ! k)"
       "st_b st' = st_b ?st - 1 / 10 * (- 1 * sig)"
    by blast
  have "loss_sig 0 = Inr (ln 2, 1 / 2)"
    by (simp add: loss_sig_def py_exp_def py_log1p_def py_div_def)
  with r(1) have sig: "sig = 1 / 2" by (simp add: dot_def)
  from r(3) have "st_w st' ! 0 = 1 / 20" "st_w st' ! 1 = - (1 / 20)"
    by (simp_all add: sig)
  with r(2,4) sig show ?thesis by simp
qed


text \<open>
  C3. The loss contribution and the gradient-sigmoid term come from a three-way branch on the
  signed margin \<open>z\<close>: \<open>(0, 0)\<close> above 35, \<open>(-z, 1)\<close> below \<open>-35\<close>, and
  \<open>(log(1 + exp(-z)), 1 / (1 + exp(z)))\<close> in between. No call of the branch raises
  (\<^verbatim>\<open>math.exp\<close> stays inside the range of a double), the loss contribution lies between
  0 and \<open>|z| + 1\<close> and the sigmoid term between 0 and 1. For a usable pair the trainer
  evaluates the branch at \<open>z = y * (w\<cdot>dx + b)\<close>, adds the loss contribution to the
  accumulated loss and uses the sigmoid term in the update.
\<close>

theorem loss_sig_three_way_branch:
  "(35 < z \<longrightarrow> loss_sig z = Inr (0, 0)) \<and>
   (z < - 35 \<longrightarrow> loss_sig z = Inr (- z, 1)) \<and>
   (\<not> 35 < z \<and> \<not> z < - 35 \<longrightarrow> loss_sig z = Inr (ln (1 + exp (- z)), 1 / (1 + exp z))) \<and>
   (\<exists>ell sig. loss_sig z = Inr (ell, sig) \<and> 0 \<le> ell \<and> ell \<le> \<bar>z\<bar> + 1 \<and> 0 \<le> sig \<and> sig \<le> 1) \<and>
   (id2x i = Some xi \<and> id2x j = Some xj \<and> length (st_w st) = nat dm \<and>
    nat dm \<le> length xi \<and> nat dm \<le> length xj \<and>
    z = (if y01 = 1 then 1 else - 1) * (dot (st_w st) (map (\<lambda>(a, c). a - c) (zip xi xj)) + st_b st) \<longrightarrow>
      (\<exists>ell sig st'. loss_sig z = Inr (ell, sig) \<and>
         train_pair id2x dm lr l2 st (i, j, y01) = Inr st' \<and>
         st_loss st' = st_loss st + ell \<and> st_n st' = st_n st + 1 \<and>
         st_b st' = st_b st - lr * (- (if y01 = 1 then 1 else - 1) * sig)))"
proof -
  have t: "loss_sig z = Inr (spec_loss z, spec_sig z)"
    by (rule loss_sig_total)
  have "35 < z \<longrightarrow> loss_sig z = Inr (0, 0)"
    by (simp add: t spec_loss_def spec_sig_def)
  moreover have "z < - 35 \<longrightarrow> loss_sig z = Inr (- z, 1)"
    by (simp add: t spec_loss_def spec_sig_def)
  moreover have "\<not> 35 < z \<and> \<not> z < - 35 \<longrightarrow> loss_sig z = Inr (ln (1 + exp (- z)), 1 / (1 + exp z))"
    by (simp add: t spec_loss_def spec_sig_def)
  moreover have "\<exists>ell sig. loss_sig z = Inr (ell, sig) \<and> 0 \<le> ell \<and> ell \<le> \<bar>z\<bar> + 1 \<and> 0 \<le> sig \<and> sig \<le> 1"
    using t spec_loss_bounds [of z] spec_sig_bounds [of z] by blast
  moreover have "\<exists>ell sig st'. loss_sig z = Inr (ell, sig) \<and>
         train_pair id2x dm lr l2 st (i, j, y01) = Inr st' \<and>
         st_loss st' = st_loss st + ell \<and> st_n st' = st_n st + 1 \<and>
         st_b st' = st_b st - lr * (- (if y01 = 1 then 1 else - 1) * sig)"
    if h: "id2x i = Some xi" "id2x j = Some xj" "length (st_w st) = nat dm"
      "nat dm \<le> length xi" "nat dm \<le> length xj"
      and z: "z = (if y01 = 1 then 1 else - 1) * (dot (st_w st) (map (\<lambda>(a, c). a - c) (zip xi xj)) + st_b st)"
  proof -
    from train_pair_usable [OF h, of lr l2 y01]
    have "\<exists>w'. train_pair id2x dm lr l2 st (i, j, y01) =
        Inr \<lparr>st_w = w', st_b = st_b st - lr * (- (if y01 = 1 then 1 else - 1) * spec_sig z),
             st_loss = st_loss st + spec_loss z, st_n = st_n st + 1\<rparr>"
      unfolding Let_def z [symmetric] by blast
    then obtain w' where "train_pair id2x dm lr l2 st (i, j, y01) =
        Inr \<lparr>st_w = w', st_b = st_b st - lr * (- (if y01 = 1 then 1 else - 1) * spec_sig z),
             st_loss = st_loss st + spec_loss z, st_n = st_n st + 1\<rparr>" ..
    with t show ?thesis by force
  qed
  ultimately show ?thesis by blast
qed

theorem loss_sig_three_way_branch_witness:
  "loss_sig 36 = Inr (0, 0) \<and> loss_sig (- 36) = Inr (36, 1) \<and> loss_sig 0 = Inr (ln 2, 1 / 2) \<and>
   (\<exists>st'. train_pair [''a'' \<mapsto> [1, 0], ''b'' \<mapsto> [0, 1]] 2 (1 / 10) 0
            \<lparr>st_w = [0, 0], st_b = 0, st_loss = 0, st_n = 0\<rparr> (''a'', ''b'', 1) = Inr st' \<and>
          st_loss st' = ln 2 \<and> st_n st' = 1 \<and> st_b st' = 1 / 20)"
proof -
  let ?m = "[''a'' \<mapsto> [1, 0::real], ''b'' \<mapsto> [0, 1]]"
  let ?st = "\<lparr>st_w = [0, 0], st_b = 0, st_loss = 0, st_n = 0\<rparr>"
  have a: "loss_sig 36 = Inr (0, 0)"
    using loss_sig_three_way_branch [of 36] by simp
  have b: "loss_sig (- 36) = Inr (36, 1)"
    using loss_sig_three_way_branch [of "- 36"] by simp
  have c: "loss_sig 0 = Inr (ln 2, 1 / 2)"
    using loss_sig_three_way_branch [of 0] by simp
  have h: "?m ''a'' = Some [1, 0] \<and> ?m ''b'' = Some [0, 1] \<and> length (st_w ?st) = nat 2 \<and>
      nat 2 \<le> length [1, 0::real] \<and> nat 2 \<le> length [0, 1::real] \<and>
      (0::real) = (if (1::int) = 1 then 1 else - 1) * (dot (st_w ?st) (map (\<lambda>(a, c). a - c) (zip [1, 0] [0, 1])) + st_b ?st)"
    by (simp add: dot_def)
  from loss_sig_three_way_branch [of 0 ?m "''a''" "[1, 0]" "''b''" "[0, 1]" ?st 2 1 "1 / 10" 0] h
  obtain ell sig st' where r: "loss_sig 0 = Inr (ell, sig)"
      "train_pair ?m 2 (1 / 10) 0 ?st (''a'', ''b'', 1) = Inr st'"
      "st_loss st' = st_loss ?st + ell" "st_n st' = st_n ?st + 1"
      "st_b st' = st_b ?st - 1 / 10 * (- (if (1::int) = 1 then 1 else - 1) * sig)"
    by blast
  from r(1) c have "ell = ln 2" "sig = 1 / 2" by simp_all
  with r(2-5) have "train_pair ?m 2 (1 / 10) 0 ?st (''a'', ''b'', 1) = Inr st' \<and>
          st_loss st' = ln 2 \<and> st_n st' = 1 \<and> st_b st' = 1 / 20"
    by simp
  with a b c show ?thesis by blast
qed




text \<open>
  C5. A pair whose first or second identifier is absent from the feature map is skipped
  without an error: the state (weights, bias, accumulated loss, count of used pairs) is
  returned as it was, and the loop goes on with the next pair from that same state.
\<close>

theorem train_pair_unknown_identifier:
  assumes "id2x i = None \<or> id2x j = None"
  shows "train_pair id2x dm lr l2 st (i, j, y01) = Inr st \<and>
         run_pairs id2x dm lr l2 st ((i, j, y01) # ps) = run_pairs id2x dm lr l2 st ps"
proof -
  from assms have "train_pair id2x dm lr l2 st (i, j, y01) = Inr st"
    by (rule train_pair_skip)
  then show ?thesis by simp
qed

theorem train_pair_unknown_identifier_witness:
  "train_pair [''a'' \<mapsto> [1, 0]] 2 (1 / 10) 0
      \<lparr>st_w = [3, 4], st_b = 5, st_loss = 6, st_n = 7\<rparr> (''a'', ''zz'', 1)
     = Inr \<lparr>st_w = [3, 4], st_b = 5, st_loss = 6, st_n = 7\<rparr> \<and>
   run_pairs [''a'' \<mapsto> [1, 0]] 2 (1 / 10) 0
      \<lparr>st_w = [3, 4], st_b = 5, st_loss = 6, st_n = 7\<rparr> [(''a'', ''zz'', 1)]
     = Inr \<lparr>st_w = [3, 4], st_b = 5, st_loss = 6, st_n = 7\<rparr>"
  using train_pair_unknown_identifier
    [of "[''a'' \<mapsto> [1, 0]]" "''a''" "''zz''" 2 "1 / 10" 0
        "\<lparr>st_w = [3, 4], st_b = 5, st_loss = 6, st_n = 7\<rparr>" 1 "[]"]
  by simp





section \<open>The model file\<close>

lemma round_half_even_near: "\<bar>of_int (round_half_even x) - x\<bar> \<le> 1 / 2"
proof -
  define f where "f = \<lfloor>x\<rfloor>"
  define d where "d = x - of_int f"
  have d: "0 \<le> d" "d < 1" unfolding d_def f_def by linarith+
  have x: "x = of_int f + d" by (simp add: d_def)
  have "round_half_even x =
      (if d < 1 / 2 then f else if 1 / 2 < d then f + 1 else if even f then f else f + 1)"
    by (simp add: round_half_even_def Let_def f_def d_def)
  then have "of_int (round_half_even x) - x = - d \<or> of_int (round_half_even x) - x = 1 - d"
    and "d < 1 / 2 \<longrightarrow> of_int (round_half_even x) - x = - d"
    and "1 / 2 < d \<longrightarrow> of_int (round_half_even x) - x = 1 - d"
    by (auto simp: x)
  with d show ?thesis by (auto simp: abs_if)
qed

lemma py_round_near: "\<bar>py_round x n - x\<bar> \<le> 1 / (2 * 10 ^ n)"
proof -
  define p where "p = (10::real) ^ n"
  define r where "r = (of_int (round_half_even (x * p)) :: real)"
  have p: "0 < p" by (simp add: p_def)
  have "py_round x n - x = (r - x * p) / p"
    using p by (simp add: py_round_def p_def r_def field_simps)
  then have "\<bar>py_round x n - x\<bar> = \<bar>r - x * p\<bar> / p"
    using p by simp
  also have "\<dots> \<le> (1 / 2) / p"
    unfolding r_def using p by (intro divide_right_mono round_half_even_near) simp
  finally show ?thesis by (simp add: p_def)
qed

lemma py_round_grid: "\<exists>n::int. py_round x 12 = of_int n / 10 ^ 12"
  unfolding py_round_def by blast

lemma py_round_example: "py_round (1 / 20) 12 = 1 / 20"
proof -
  have "round_half_even (50000000000::real) = 50000000000"
    by (simp add: round_half_even_def)
  then show ?thesis by (simp add: py_round_def)
qed


lemma py_round_third: "py_round (1 / 3) 12 = 333333333333 / 10 ^ 12"
proof -
  have "round_half_even (1000000000000 / 3 :: real) = 333333333333"
    by (simp add: round_half_even_def Let_def)
  then show ?thesis by (simp add: py_round_def)
qed


text \<open>
  C7. The object that \<^verbatim>\<open>save_model\<close> serializes has the integer \<open>feature_version\<close>, an
  integer \<open>dim\<close> equal to the length of its \<open>weights\<close> array, a flat \<open>weights\<close> array
  with one number for each entry of \<open>w\<close>, that entry rounded to 12 decimal digits (a multiple
  of \<open>10\<^sup>-\<^sup>1\<^sup>2\<close> at most half a unit of the twelfth digit away from it), and the
  scalar \<open>bias\<close>, which is \<open>b\<close> rounded in the same way.
\<close>

theorem save_model_object:
  "\<exists>d ws. save_model feature_version w b = PyDict d \<and>
     dict_get d ''feature_version'' = PyInt feature_version \<and>
     dict_get d ''dim'' = PyInt (int (length ws)) \<and>
     dict_get d ''weights'' = PyList ws \<and>
     length ws = length w \<and>
     (\<forall>k < length w. ws ! k = PyFloat (Finite (py_round (w ! k) 12)) \<and>
        (\<exists>n::int. py_round (w ! k) 12 = of_int n / 10 ^ 12) \<and>
        \<bar>py_round (w ! k) 12 - w ! k\<bar> \<le> 1 / (2 * 10 ^ 12)) \<and>
     dict_get d ''bias'' = PyFloat (Finite (py_round b 12)) \<and>
     (\<exists>n::int. py_round b 12 = of_int n / 10 ^ 12) \<and>
     \<bar>py_round b 12 - b\<bar> \<le> 1 / (2 * 10 ^ 12)"
proof -
  let ?ws = "map (\<lambda>v. PyFloat (Finite (py_round v 12))) w"
  let ?d = "[(''feature_version'', PyInt feature_version), (''dim'', PyInt (int (length w))),
             (''weights'', PyList ?ws), (''bias'', PyFloat (Finite (py_round b 12)))]"
  have "save_model feature_version w b = PyDict ?d"
    by (simp add: save_model_def)
  moreover have "dict_get ?d ''feature_version'' = PyInt feature_version"
    by (simp add: dict_get_def)
  moreover have "dict_get ?d ''dim'' = PyInt (int (length ?ws))"
    by (simp add: dict_get_def)
  moreover have "dict_get ?d ''weights'' = PyList ?ws"
    by (simp add: dict_get_def)
  moreover have "dict_get ?d ''bias'' = PyFloat (Finite (py_round b 12))"
    by (simp add: dict_get_def)
  moreover have "length ?ws = length w" by simp
  moreover have "\<forall>k < length w. ?ws ! k = PyFloat (Finite (py_round (w ! k) 12)) \<and>
        (\<exists>n::int. py_round (w ! k) 12 = of_int n / 10 ^ 12) \<and>
        \<bar>py_round (w ! k) 12 - w ! k\<bar> \<le> 1 / (2 * 10 ^ 12)"
    using py_round_grid py_round_near [of _ 12] by simp
  ultimately show ?thesis
    using py_round_grid [of b] py_round_near [of b 12] by blast
qed

theorem save_model_object_witness:
  "\<exists>d ws. save_model 2 [1 / 20, 1 / 3] (1 / 20) = PyDict d \<and>
     dict_get d ''feature_version'' = PyInt 2 \<and>
     dict_get d ''dim'' = PyInt 2 \<and>
     dict_get d ''weights'' = PyList ws \<and>
     ws ! 0 = PyFloat (Finite (1 / 20)) \<and>
     ws ! 1 = PyFloat (Finite (333333333333 / 10 ^ 12)) \<and>
     dict_get d ''bias'' = PyFloat (Finite (1 / 20))"
proof -
  from save_model_object [of 2 "[1 / 20, 1 / 3]" "1 / 20"] obtain d ws where
    r: "save_model 2 [1 / 20, 1 / 3] (1 / 20) = PyDict d"
       "dict_get d ''feature_version'' = PyInt 2"
       "dict_get d ''dim'' = PyInt (int (length ws))"
       "dict_get d ''weights'' = PyList ws"
       "length ws = length [1 / 20, 1 / 3 :: real]"
       "\<forall>k < length [1 / 20, 1 / 3 :: real]. ws ! k = PyFloat (Finite (py_round ([1 / 20, 1 / 3] ! k) 12))"
       "dict_get d ''bias'' = PyFloat (Finite (py_round (1 / 20) 12))"
    by blast
  from r(6) have "ws ! 0 = PyFloat (Finite (py_round (1 / 20) 12))"
    "ws ! 1 = PyFloat (Finite (py_round (1 / 3) 12))"
    by simp_all
  with r(1-5,7) show ?thesis
    by (simp add: py_round_example py_round_third del: power_numeral)
qed


section \<open>The loaders\<close>




lemma str_field_row_get_nonempty:
  "str_field (row_get r k []) \<noteq> [] \<longleftrightarrow> r k \<noteq> None \<and> r k \<noteq> Some (Some [])"
  by (auto simp: str_field_def row_get_def split: option.splits)

lemma read_pair_Some:
  "read_pair L r = Some (i, j, y) \<longleftrightarrow>
     i = str_field (row_get r ''i'' []) \<and> j = str_field (row_get r ''j'' []) \<and>
     i \<noteq> [] \<and> j \<noteq> [] \<and>
     (\<exists>s f. row_get r ''y'' [] = Some s \<and> float_str L s = Some (Finite f) \<and>
            y = (if 0 \<le> f then \<lfloor>f\<rfloor> else \<lceil>f\<rceil>) \<and> (y = 0 \<or> y = 1))"
proof (cases "row_get r ''y'' []")
  case None
  then show ?thesis by (simp add: read_pair_def Let_def)
next
  case (Some s)
  show ?thesis
  proof (cases "float_str L s")
    case None
    with Some show ?thesis by (simp add: read_pair_def Let_def)
  next
    case fs: (Some f)
    show ?thesis
    proof (cases f)
      case (Finite x)
      with Some fs show ?thesis
        by (simp add: read_pair_def Let_def) blast
    qed (use Some fs in \<open>simp_all add: read_pair_def Let_def\<close>)
  qed
qed

lemma load_pairs_csv_map_filter: "load_pairs_csv L rows = List.map_filter (read_pair L) rows"
  by (induction rows) (simp_all split: option.splits)


text \<open>
  C9. The pairs loader keeps a row exactly when both identifiers, as it reads them, are not
  empty and the label parses as a finite float whose truncation towards zero is 0 or 1, and
  it stores that truncation as the label. An identifier as read is not empty exactly when
  its column is present and its text is not the empty one (the \<^verbatim>\<open>None\<close> of a short row is
  read as the text \<^verbatim>\<open>None\<close>). The kept rows are stored in the order of the file. So a
  label that parses as 1.9 is kept as 1 and one that parses as 0.5 as 0, while a label that
  parses as 2 or does not parse is dropped.
\<close>

theorem load_pairs_csv_keeps:
  "(read_pair L r = Some (i, j, y) \<longleftrightarrow>
      i = str_field (row_get r ''i'' []) \<and> j = str_field (row_get r ''j'' []) \<and>
      i \<noteq> [] \<and> j \<noteq> [] \<and>
      (\<exists>s f. row_get r ''y'' [] = Some s \<and> float_str L s = Some (Finite f) \<and>
             y = (if 0 \<le> f then \<lfloor>f\<rfloor> else \<lceil>f\<rceil>) \<and> (y = 0 \<or> y = 1))) \<and>
   (str_field (row_get r k []) \<noteq> [] \<longleftrightarrow> r k \<noteq> None \<and> r k \<noteq> Some (Some [])) \<and>
   load_pairs_csv L rows = List.map_filter (read_pair L) rows \<and>
   (r ''i'' = Some (Some a) \<and> a \<noteq> [] \<and> r ''j'' = Some (Some c) \<and> c \<noteq> [] \<and>
    r ''y'' = Some (Some s) \<longrightarrow>
      (float_str L s = Some (Finite (19 / 10)) \<longrightarrow> read_pair L r = Some (a, c, 1)) \<and>
      (float_str L s = Some (Finite (5 / 10)) \<longrightarrow> read_pair L r = Some (a, c, 0)) \<and>
      (float_str L s = Some (Finite 2) \<longrightarrow> read_pair L r = None) \<and>
      (float_str L s = None \<longrightarrow> read_pair L r = None))"
proof -
  have ex: "(float_str L s = Some (Finite (19 / 10)) \<longrightarrow> read_pair L r = Some (a, c, 1)) \<and>
      (float_str L s = Some (Finite (5 / 10)) \<longrightarrow> read_pair L r = Some (a, c, 0)) \<and>
      (float_str L s = Some (Finite 2) \<longrightarrow> read_pair L r = None) \<and>
      (float_str L s = None \<longrightarrow> read_pair L r = None)"
    if "r ''i'' = Some (Some a)" "a \<noteq> []" "r ''j'' = Some (Some c)" "c \<noteq> []" "r ''y'' = Some (Some s)"
    using that by (simp add: read_pair_def row_get_def str_field_def)
  show ?thesis
    using read_pair_Some [of L r i j y] str_field_row_get_nonempty [of r k]
      load_pairs_csv_map_filter [of L rows] ex
    by blast
qed

theorem load_pairs_csv_keeps_witness:
  "load_pairs_csv
     \<lparr>json_loads = (\<lambda>s. None), literal_eval = (\<lambda>s. None),
      float_str = (\<lambda>s. if s = ''1.9'' then Some (Finite (19 / 10))
                        else if s = ''0.5'' then Some (Finite (5 / 10))
                        else if s = ''2'' then Some (Finite 2) else None),
      repr = (\<lambda>v. ''?'')\<rparr>
     [[''i'' \<mapsto> Some ''a'', ''j'' \<mapsto> Some ''b'', ''y'' \<mapsto> Some ''1.9''],
      [''i'' \<mapsto> Some ''a'', ''j'' \<mapsto> Some ''b'', ''y'' \<mapsto> Some ''x''],
      [''i'' \<mapsto> Some ''c'', ''j'' \<mapsto> Some ''d'', ''y'' \<mapsto> Some ''0.5''],
      [''i'' \<mapsto> Some ''c'', ''j'' \<mapsto> Some ''d'', ''y'' \<mapsto> Some ''2'']]
   = [(''a'', ''b'', 1), (''c'', ''d'', 0)]"
proof -
  let ?L = "\<lparr>json_loads = (\<lambda>s. None), literal_eval = (\<lambda>s. None),
      float_str = (\<lambda>s. if s = ''1.9'' then Some (Finite (19 / 10))
                        else if s = ''0.5'' then Some (Finite (5 / 10))
                        else if s = ''2'' then Some (Finite 2) else None),
      repr = (\<lambda>v. ''?'')\<rparr>"
  let ?r1 = "[''i'' \<mapsto> Some ''a'', ''j'' \<mapsto> Some ''b'', ''y'' \<mapsto> Some ''1.9'']"
  let ?r2 = "[''i'' \<mapsto> Some ''a'', ''j'' \<mapsto> Some ''b'', ''y'' \<mapsto> Some ''x'']"
  let ?r3 = "[''i'' \<mapsto> Some ''c'', ''j'' \<mapsto> Some ''d'', ''y'' \<mapsto> Some ''0.5'']"
  let ?r4 = "[''i'' \<mapsto> Some ''c'', ''j'' \<mapsto> Some ''d'', ''y'' \<mapsto> Some ''2'']"
  have h1: "?r1 ''i'' = Some (Some ''a'') \<and> ''a'' \<noteq> [] \<and> ?r1 ''j'' = Some (Some ''b'') \<and> ''b'' \<noteq> [] \<and>
      ?r1 ''y'' = Some (Some ''1.9'')" by simp
  have h2: "?r2 ''i'' = Some (Some ''a'') \<and> ''a'' \<noteq> [] \<and> ?r2 ''j'' = Some (Some ''b'') \<and> ''b'' \<noteq> [] \<and>
      ?r2 ''y'' = Some (Some ''x'')" by simp
  have h3: "?r3 ''i'' = Some (Some ''c'') \<and> ''c'' \<noteq> [] \<and> ?r3 ''j'' = Some (Some ''d'') \<and> ''d'' \<noteq> [] \<and>
      ?r3 ''y'' = Some (Some ''0.5'')" by simp
  have h4: "?r4 ''i'' = Some (Some ''c'') \<and> ''c'' \<noteq> [] \<and> ?r4 ''j'' = Some (Some ''d'') \<and> ''d'' \<noteq> [] \<and>
      ?r4 ''y'' = Some (Some ''2'')" by simp
  have f1: "float_str ?L ''1.9'' = Some (Finite (19 / 10))" by simp
  have f2: "float_str ?L ''x'' = None" by simp
  have f3: "float_str ?L ''0.5'' = Some (Finite (5 / 10))" by simp
  have f4: "float_str ?L ''2'' = Some (Finite 2)" by simp
  from load_pairs_csv_keeps [of ?L ?r1 _ _ _ _ _ "''a''" "''b''" "''1.9''"] h1 f1
  have r1: "read_pair ?L ?r1 = Some (''a'', ''b'', 1)" by blast
  from load_pairs_csv_keeps [of ?L ?r2 _ _ _ _ _ "''a''" "''b''" "''x''"] h2 f2
  have r2: "read_pair ?L ?r2 = None" by blast
  from load_pairs_csv_keeps [of ?L ?r3 _ _ _ _ _ "''c''" "''d''" "''0.5''"] h3 f3
  have r3: "read_pair ?L ?r3 = Some (''c'', ''d'', 0)" by blast
  from load_pairs_csv_keeps [of ?L ?r4 _ _ _ _ _ "''c''" "''d''" "''2''"] h4 f4
  have r4: "read_pair ?L ?r4 = None" by blast
  from load_pairs_csv_keeps [of ?L _ _ _ _ _ "[?r1, ?r2, ?r3, ?r4]"]
  have "load_pairs_csv ?L [?r1, ?r2, ?r3, ?r4] = List.map_filter (read_pair ?L) [?r1, ?r2, ?r3, ?r4]"
    by blast
  with r1 r2 r3 r4 show ?thesis by (simp only: List.map_filter_simps option.case)
qed








section \<open>The adapter\<close>







lemma main_loop_counts:
  "main_loop L mode idx rows (out, n_ok, n_skip) = (out', n_ok', n_skip') \<Longrightarrow>
   n_ok' = n_ok + (length out' - length out) \<and> length out \<le> length out' \<and>
   n_ok' + n_skip' = n_ok + n_skip + length rows"
proof (induction rows arbitrary: idx out n_ok n_skip)
  case Nil
  then show ?case by simp
next
  case (Cons row rows)
  show ?case
  proof (cases "convert_row L mode idx row")
    case None
    with Cons.prems have "main_loop L mode (Suc idx) rows (out, n_ok, Suc n_skip) = (out', n_ok', n_skip')"
      by simp
    from Cons.IH [OF this] have "n_ok' = n_ok + (length out' - length out)"
      "length out \<le> length out'" "n_ok' + n_skip' = n_ok + Suc n_skip + length rows"
      by blast+
    then show ?thesis by (simp only: list.size) arith
  next
    case (Some obj)
    with Cons.prems have "main_loop L mode (Suc idx) rows (out @ [obj], Suc n_ok, n_skip) = (out', n_ok', n_skip')"
      by simp
    from Cons.IH [OF this] have "n_ok' = Suc n_ok + (length out' - length (out @ [obj]))"
      "length (out @ [obj]) \<le> length out'" "n_ok' + n_skip' = Suc n_ok + n_skip + length rows"
      by blast+
    then show ?thesis by (simp only: list.size length_append) arith
  qed
qed






end
